theory Spec2Isabelle
  imports Main "HOL-Library.Signed_Division" "HOL-Library.Multiset"
begin

section \<open>brestagenda: the crawler and the formatter of the newest source file\<close>

text \<open>
  The development follows the newest of the three versions of the program (the one with
  \<^verbatim>\<open>formatDuration\<close>, \<^verbatim>\<open>ServerError\<close> and \<^verbatim>\<open>--dump-dir\<close>). Functions of the program are
  translated line by line. What the program calls in the standard library or in goquery
  is either given a small model of its own (instants, \<^verbatim>\<open>%+d\<close>, \<^verbatim>\<open>sort.Sort\<close>) or passed in
  as a record of functions (calendar formatting, URL resolution, HTML parsing, the
  floating-point day count), so that no theorem depends on more than the program's own
  logic.
\<close>

subsection \<open>Errors\<close>

text \<open>
  \<^verbatim>\<open>ServerError\<close> is the package variable of the program, \<^verbatim>\<open>GetStatus c\<close> is
  \<^verbatim>\<open>fmt.Errorf("GET got %d", c)\<close>, \<^verbatim>\<open>NoEventFound\<close> is \<^verbatim>\<open>fmt.Errorf("no event found")\<close>.
  \<^verbatim>\<open>External m\<close> is an error value handed back by a library or by the operating system;
  such a value is never identical to \<^verbatim>\<open>ServerError\<close>, which is why libraries return the
  message \<^verbatim>\<open>m\<close> and the program's model wraps it.
\<close>

datatype error = ServerError | GetStatus int | NoEventFound | External string

subsection \<open>time.Time and time.Duration\<close>

text \<open>
  A \<^verbatim>\<open>time.Time\<close> without monotonic clock reading (every time of this program: parsed,
  decoded, or built by \<^verbatim>\<open>time.Date\<close>) is an instant and a location. The instant is counted
  in nanoseconds since January 1, year 1, 00:00:00 UTC, the zero \<^verbatim>\<open>Time\<close>. Events carry
  four-digit years, so the second counter stays far away from the limits of its 64 bits
  and \<^verbatim>\<open>Add\<close> is exact on them; \<^verbatim>\<open>Sub\<close> saturates at the limits of \<^verbatim>\<open>Duration\<close>, as the
  library documents.
\<close>

datatype Location = UTC | Local | FixedZone int

record Time =
  instant :: int
  loc :: Location

type_synonym Duration = int

definition Hour :: Duration where
  "Hour = 3600000000000"

definition minDuration :: Duration where
  "minDuration = - (2 ^ 63)"

definition maxDuration :: Duration where
  "maxDuration = 2 ^ 63 - 1"

definition zeroTime :: Time where
  "zeroTime = \<lparr>instant = 0, loc = UTC\<rparr>"

definition Time_IsZero :: "Time \<Rightarrow> bool" where
  "Time_IsZero t = (instant t = 0)"

definition Time_Before :: "Time \<Rightarrow> Time \<Rightarrow> bool" where
  "Time_Before t u = (instant t < instant u)"

definition Time_Add :: "Time \<Rightarrow> Duration \<Rightarrow> Time" where
  "Time_Add t d = t\<lparr>instant := instant t + d\<rparr>"

definition Time_Sub :: "Time \<Rightarrow> Time \<Rightarrow> Duration" where
  "Time_Sub t u =
     (let d = instant t - instant u
      in if minDuration \<le> d \<and> d \<le> maxDuration then d
         else if instant t < instant u then minDuration
         else maxDuration)"

datatype Weekday = Sunday | Monday | Tuesday | Wednesday | Thursday | Friday | Saturday

text \<open>\<^verbatim>\<open>int(d)\<close> for a \<^verbatim>\<open>time.Weekday\<close>.\<close>

fun Weekday_int :: "Weekday \<Rightarrow> nat" where
  "Weekday_int Sunday = 0"
| "Weekday_int Monday = 1"
| "Weekday_int Tuesday = 2"
| "Weekday_int Wednesday = 3"
| "Weekday_int Thursday = 4"
| "Weekday_int Friday = 5"
| "Weekday_int Saturday = 6"

text \<open>
  The calendar side of package \<^verbatim>\<open>time\<close> and the one floating-point expression of the
  formatter are parameters:
  \<^item> \<^verbatim>\<open>Time_Format t\<close> is \<^verbatim>\<open>t.Format("2006-01-02")\<close>;
  \<^item> \<^verbatim>\<open>Time_Weekday t\<close> is \<^verbatim>\<open>t.Weekday()\<close>;
  \<^item> \<^verbatim>\<open>HoursDiv24 d\<close> is \<^verbatim>\<open>int(d.Hours()/24)\<close>, a \<^verbatim>\<open>float64\<close> division followed by a
    truncating conversion.
\<close>

record timelib =
  Time_Format :: "Time \<Rightarrow> string"
  Time_Weekday :: "Time \<Rightarrow> Weekday"
  HoursDiv24 :: "Duration \<Rightarrow> int"

subsection \<open>fmt.Sprintf with the verb \<^verbatim>\<open>%+d\<close>\<close>

definition digit_char :: "nat \<Rightarrow> char" where
  "digit_char d = ''0123456789'' ! d"

function decimal :: "nat \<Rightarrow> string" where
  "decimal n = (if n < 10 then [digit_char n] else decimal (n div 10) @ [digit_char (n mod 10)])"
  by pat_completeness auto
termination
  by (relation "measure (\<lambda>n. n)") auto

declare decimal.simps [simp del]

text \<open>\<^verbatim>\<open>%+d\<close>: the sign always, then the decimal digits of the magnitude.\<close>

definition Sprintf_plus_d :: "int \<Rightarrow> string" where
  "Sprintf_plus_d x =
     (if x < 0 then CHR ''-'' # decimal (nat (- x)) else CHR ''+'' # decimal (nat x))"

subsection \<open>The data model\<close>

record Event =
  Title :: string
  Desc :: string
  Category :: string
  Link :: string
  Start :: Time
  End :: Time

text \<open>
  \<^verbatim>\<open>HtmlEntry\<close> repeats four field names of \<^verbatim>\<open>Event\<close>; they carry the suffix \<^verbatim>\<open>_html\<close>
  here. \<^verbatim>\<open>Delta\<close> is a Go \<^verbatim>\<open>int\<close>: the values the formatter stores are day counts of a
  \<^verbatim>\<open>Duration\<close>, below 106752 in magnitude, and \<^verbatim>\<open>formatDuration\<close> only compares and divides,
  so no operation on it can wrap.
\<close>

record HtmlEntry =
  Link_html :: string
  Start_html :: string
  End_html :: string
  DeltaStr :: string
  Delta :: int
  Title_html :: string
  Weekday :: string

text \<open>
  The struct \<^verbatim>\<open>Entries\<close> of \<^verbatim>\<open>writeHtml\<close>; its fields \<^verbatim>\<open>Before\<close> and \<^verbatim>\<open>After\<close> carry the suffix
  \<^verbatim>\<open>_entries\<close>.
\<close>

record Entries =
  Before_entries :: "HtmlEntry list"
  After_entries :: "HtmlEntry list"
  HasAfter :: bool

subsection \<open>sortedEntries and sort.Sort\<close>

text \<open>The method \<^verbatim>\<open>Less\<close> of \<^verbatim>\<open>sortedEntries\<close>, on the two elements it indexes.\<close>

definition Less :: "HtmlEntry \<Rightarrow> HtmlEntry \<Rightarrow> bool" where
  "Less a b = (Delta a < Delta b)"

text \<open>
  \<^verbatim>\<open>sort.Sort\<close> promises an ascending order with respect to \<^verbatim>\<open>Less\<close> and no more (the
  order of elements that \<^verbatim>\<open>Less\<close> does not separate is left open). The model is the
  insertion sort the library itself runs on short slices: each element in turn joins the
  sorted front part, in front of the first element it is \<^verbatim>\<open>Less\<close> than (where the library's
  swaps towards the front come to a stop).
\<close>

fun sink :: "('a \<Rightarrow> 'a \<Rightarrow> bool) \<Rightarrow> 'a \<Rightarrow> 'a list \<Rightarrow> 'a list" where
  "sink lt x [] = [x]"
| "sink lt x (y # ys) = (if lt x y then x # y # ys else y # sink lt x ys)"

definition sort_Sort :: "('a \<Rightarrow> 'a \<Rightarrow> bool) \<Rightarrow> 'a list \<Rightarrow> 'a list" where
  "sort_Sort lt xs = foldl (\<lambda>sorted_part x. sink lt x sorted_part) [] xs"

subsection \<open>The formatter\<close>

definition Weekdays :: "string list" where
  "Weekdays = [''Di'', ''Lu'', ''Ma'', ''Me'', ''Je'', ''Ve'', ''Sa'']"

text \<open>Go's \<^verbatim>\<open>/\<close> on integers truncates towards zero: \<^verbatim>\<open>sdiv\<close>.\<close>

definition formatDuration :: "int \<Rightarrow> string" where
  "formatDuration days =
     (if days > 30 \<or> days < - 30 then Sprintf_plus_d (days sdiv 30) @ ''m''
      else Sprintf_plus_d days @ ''j'')"

text \<open>
  One iteration of the loop of \<^verbatim>\<open>writeHtml\<close> over the events; \<^verbatim>\<open>continue\<close> hands the
  entries back unchanged.
\<close>

definition writeHtml_body :: "timelib \<Rightarrow> Time \<Rightarrow> Entries \<Rightarrow> Event \<Rightarrow> Entries" where
  "writeHtml_body L now entries ev =
     (let startDate = Start ev;
          endDate = Time_Add (Start ev) (24 * Hour);
          endDate = (if \<not> Time_IsZero (End ev) then Time_Add (End ev) (24 * Hour) else endDate);
          endDateIn = Time_Add endDate (- 24 * Hour)
      in if \<not> Time_Before now endDate then entries
         else
           let baseDate = startDate;
               relDate = baseDate;
               mult = 1;
               (relDate, baseDate, mult) =
                 (if Time_Before startDate now then (endDate, endDateIn, - 1)
                  else (relDate, baseDate, mult));
               delta = mult * HoursDiv24 L (Time_Sub relDate now);
               deltaStr = '''';
               deltaStr = (if delta \<noteq> 0 then formatDuration delta else deltaStr);
               entry = \<lparr>Link_html = Link ev,
                        Start_html = Time_Format L (Start ev),
                        End_html = Time_Format L endDateIn,
                        DeltaStr = deltaStr,
                        Delta = delta,
                        Title_html = Title ev,
                        Weekday = Weekdays ! Weekday_int (Time_Weekday L relDate)\<rparr>
           in if \<not> Time_Before startDate now
              then entries\<lparr>After_entries := After_entries entries @ [entry]\<rparr>
              else entries\<lparr>Before_entries := Before_entries entries @ [entry]\<rparr>)"

text \<open>
  \<^verbatim>\<open>writeHtml\<close>, with \<^verbatim>\<open>now\<close> (the current date at midnight, local time) as an argument.
  The result is the value handed to the template; the template text itself is not
  modelled.
\<close>

definition writeHtml :: "timelib \<Rightarrow> Time \<Rightarrow> Event list \<Rightarrow> Entries" where
  "writeHtml L now events =
     (let entries = \<lparr>Before_entries = [], After_entries = [], HasAfter = False\<rparr>;
          entries = foldl (writeHtml_body L now) entries events;
          entries = entries\<lparr>Before_entries := sort_Sort Less (Before_entries entries)\<rparr>;
          entries = entries\<lparr>After_entries := sort_Sort Less (After_entries entries)\<rparr>
      in entries\<lparr>HasAfter := length (Before_entries entries) > 0 \<and> length (After_entries entries) > 0\<rparr>)"

subsection \<open>A listing page as goquery shows it\<close>

text \<open>
  The program reads a parsed page through a handful of goquery selections only. An item
  is one \<^verbatim>\<open>article[class~='listItem']\<close>; each field is what the selection named in the
  source finds inside it, \<^verbatim>\<open>None\<close> when it finds nothing:
  \<^item> \<^verbatim>\<open>title_h3\<close>, \<^verbatim>\<open>chapeau_div\<close>, \<^verbatim>\<open>category_p\<close>: the text of the first matching node;
  \<^item> \<^verbatim>\<open>linkView_href\<close>: the \<^verbatim>\<open>href\<close> of the first \<^verbatim>\<open>a[class='linkView']\<close> (\<^verbatim>\<open>None\<close> also when the
    node has no such attribute);
  \<^item> \<^verbatim>\<open>date_times\<close>: the nodes \<^verbatim>\<open>p[class='date'] time\<close> in document order, each with its
    \<^verbatim>\<open>datetime\<close> attribute if it has one.
  \<^verbatim>\<open>link_next\<close> is the \<^verbatim>\<open>href\<close> of the first \<^verbatim>\<open>link[rel='next']\<close> of the document.
\<close>

record Item =
  title_h3 :: "string option"
  chapeau_div :: "string option"
  category_p :: "string option"
  linkView_href :: "string option"
  date_times :: "string option list"

record Document =
  listItems :: "Item list"
  link_next :: "string option"

text \<open>\<^verbatim>\<open>Selection.Text\<close>: the empty string for an empty selection.\<close>

definition Text :: "string option \<Rightarrow> string" where
  "Text sel = (case sel of None \<Rightarrow> [] | Some s \<Rightarrow> s)"

text \<open>\<^verbatim>\<open>Selection.Attr\<close>: the value and whether it exists; the empty string when it does not.\<close>

definition Attr :: "string option \<Rightarrow> string \<times> bool" where
  "Attr a = (case a of None \<Rightarrow> ([], False) | Some v \<Rightarrow> (v, True))"

text \<open>\<^verbatim>\<open>dates.Eq(i).Attr("datetime")\<close>: \<^verbatim>\<open>Eq\<close> gives an empty selection when \<^verbatim>\<open>i\<close> is out of range.\<close>

definition Eq_Attr :: "string option list \<Rightarrow> nat \<Rightarrow> string \<times> bool" where
  "Eq_Attr dates i = (if i < length dates then Attr (dates ! i) else ([], False))"

text \<open>
  The libraries of the crawler, as parameters. A library error is its message.
  \<^item> \<^verbatim>\<open>TrimSpace\<close> is \<^verbatim>\<open>strings.TrimSpace\<close>;
  \<^item> \<^verbatim>\<open>url_Parse\<close>, \<^verbatim>\<open>ResolveReference\<close> (receiver first) and \<^verbatim>\<open>URL_String\<close> are \<^verbatim>\<open>url.Parse\<close>,
    \<^verbatim>\<open>(*URL).ResolveReference\<close> and \<^verbatim>\<open>(*URL).String\<close>, over a type \<^verbatim>\<open>'u\<close> of parsed URLs;
  \<^item> \<^verbatim>\<open>time_Parse s\<close> is \<^verbatim>\<open>time.Parse("2006-01-02", s)\<close>;
  \<^item> \<^verbatim>\<open>NewDocumentFromReader\<close> is goquery's, on the bytes of a response body.
\<close>

record 'u weblib =
  TrimSpace :: "string \<Rightarrow> string"
  url_Parse :: "string \<Rightarrow> string + 'u"
  ResolveReference :: "'u \<Rightarrow> 'u \<Rightarrow> 'u"
  URL_String :: "'u \<Rightarrow> string"
  time_Parse :: "string \<Rightarrow> string + Time"
  NewDocumentFromReader :: "string \<Rightarrow> string + Document"

subsection \<open>The extractor\<close>

text \<open>One iteration of the loop of \<^verbatim>\<open>extractEvents\<close>: the event of an item, or the error returned.\<close>

definition extractEvents_item :: "'u weblib \<Rightarrow> 'u \<Rightarrow> Item \<Rightarrow> error + Event" where
  "extractEvents_item L baseUrl item =
     (let title = Text (title_h3 item);
          desc = Text (chapeau_div item);
          cat = Text (category_p item);
          link = fst (Attr (linkView_href item))
      in case url_Parse L link of
           Inl m \<Rightarrow> Inl (External m)
         | Inr relUrl \<Rightarrow>
             (let relUrl = ResolveReference L baseUrl relUrl;
                  dates = date_times item;
                  start_s = fst (Eq_Attr dates 0);
                  end_s = fst (Eq_Attr dates 1);
                  ev = \<lparr>Title = TrimSpace L title,
                        Desc = TrimSpace L desc,
                        Category = TrimSpace L cat,
                        Link = URL_String L relUrl,
                        Start = zeroTime,
                        End = zeroTime\<rparr>
              in case time_Parse L start_s of
                   Inl m \<Rightarrow> Inl (External m)
                 | Inr t \<Rightarrow>
                     (let ev = ev\<lparr>Start := t\<rparr>
                      in if end_s \<noteq> []
                         then (case time_Parse L end_s of
                                 Inl m \<Rightarrow> Inl (External m)
                               | Inr t \<Rightarrow> Inr (ev\<lparr>End := t\<rparr>))
                         else Inr ev)))"

fun extractEvents_loop :: "'u weblib \<Rightarrow> 'u \<Rightarrow> Item list \<Rightarrow> Event list \<Rightarrow> error + Event list" where
  "extractEvents_loop L baseUrl [] events = Inr events"
| "extractEvents_loop L baseUrl (item # items) events =
     (case extractEvents_item L baseUrl item of
        Inl err \<Rightarrow> Inl err
      | Inr ev \<Rightarrow> extractEvents_loop L baseUrl items (events @ [ev]))"

definition extractEvents :: "'u weblib \<Rightarrow> Document \<Rightarrow> 'u \<Rightarrow> error + Event list" where
  "extractEvents L doc baseUrl = extractEvents_loop L baseUrl (listItems doc) []"

subsection \<open>The crawler\<close>

text \<open>
  What the crawler meets outside the process:
  \<^item> \<^verbatim>\<open>Get n u\<close> is the answer of \<^verbatim>\<open>client.Get(u)\<close> to the request number \<^verbatim>\<open>n\<close> of the crawl
    (the loop counts its requests in \<^verbatim>\<open>pages\<close>): a transport error or a response;
  \<^item> the \<^verbatim>\<open>Body\<close> of a response is what reading it to its end gives: a read error or bytes
    (\<^verbatim>\<open>ioutil.ReadAll\<close> and the document reader both hand a read error back);
  \<^item> \<^verbatim>\<open>MkdirAll d\<close> is \<^verbatim>\<open>os.MkdirAll(d, 0755)\<close>;
  \<^item> \<^verbatim>\<open>WriteFile d n data\<close> is \<^verbatim>\<open>ioutil.WriteFile\<close> on the file \<^verbatim>\<open>n.html\<close> joined to \<^verbatim>\<open>d\<close>;
  \<^item> \<^verbatim>\<open>Create p\<close> is \<^verbatim>\<open>os.Create(p)\<close>;
  \<^item> \<^verbatim>\<open>Encode events\<close> is \<^verbatim>\<open>json.NewEncoder(fp).Encode(&events)\<close>: its error, and the bytes
    that reached the file.
  \<^verbatim>\<open>None\<close> is \<^verbatim>\<open>nil\<close>. Lines printed to the standard output are left out.
\<close>

record Response =
  StatusCode :: int
  Body :: "string + string"

record env =
  MkdirAll :: "string \<Rightarrow> string option"
  Get :: "nat \<Rightarrow> string \<Rightarrow> string + Response"
  WriteFile :: "string \<Rightarrow> nat \<Rightarrow> string \<Rightarrow> string option"
  Create :: "string \<Rightarrow> string option"
  Encode :: "Event list \<Rightarrow> string option \<times> string"

record Page =
  Events :: "Event list"
  Next :: string

definition getPage :: "env \<Rightarrow> 'u weblib \<Rightarrow> 'u \<Rightarrow> 'u \<Rightarrow> string \<Rightarrow> nat \<Rightarrow> error + Page" where
  "getPage E L url base dumpDir pageNum =
     (case Get E pageNum (URL_String L url) of
        Inl m \<Rightarrow> Inl (External m)
      | Inr rsp \<Rightarrow>
          if StatusCode rsp \<noteq> 200
          then (if StatusCode rsp = 500 then Inl ServerError
                else Inl (GetStatus (StatusCode rsp)))
          else
            (case (if dumpDir \<noteq> []
                   then (case Body rsp of
                           Inl m \<Rightarrow> Inl (External m)
                         | Inr data \<Rightarrow>
                             (case WriteFile E dumpDir pageNum data of
                                Some m \<Rightarrow> Inl (External m)
                              | None \<Rightarrow> Inr (Inr data)))
                   else Inr (Body rsp)) of
               Inl err \<Rightarrow> Inl err
             | Inr r \<Rightarrow>
                 (case (case r of Inl m \<Rightarrow> Inl m | Inr data \<Rightarrow> NewDocumentFromReader L data) of
                    Inl m \<Rightarrow> Inl (External m)
                  | Inr doc \<Rightarrow>
                      (case extractEvents L doc base of
                         Inl err \<Rightarrow> Inl err
                       | Inr events \<Rightarrow>
                           (let u = fst (Attr (link_next doc))
                            in Inr \<lparr>Events = events, Next = u\<rparr>)))))"

text \<open>
  The \<^verbatim>\<open>for\<close> loop of \<^verbatim>\<open>crawlFn\<close>. Nothing bounds the number of pages, so the loop is a
  partial function: \<^verbatim>\<open>None\<close> is a crawl that never leaves the loop. Left with \<^verbatim>\<open>break\<close>, it
  gives the events; left with \<^verbatim>\<open>return err\<close>, the error.
\<close>

partial_function (option) crawl_loop ::
  "env \<Rightarrow> 'u weblib \<Rightarrow> 'u \<Rightarrow> string \<Rightarrow> string \<Rightarrow> Event list \<Rightarrow> nat \<Rightarrow> (error + Event list) option"
where
  "crawl_loop E L baseUrl dumpDir path events pages =
     (case url_Parse L path of
        Inl m \<Rightarrow> Some (Inl (External m))
      | Inr u \<Rightarrow>
          (case getPage E L (ResolveReference L baseUrl u) baseUrl dumpDir pages of
             Inl err \<Rightarrow>
               if err = ServerError then Some (Inr events)
               else Some (Inl err)
           | Inr p \<Rightarrow>
               if Next p = [] then Some (Inr (events @ Events p))
               else crawl_loop E L baseUrl dumpDir (Next p) (events @ Events p) (pages + 1)))"

declare crawl_loop.simps [code]

text \<open>
  What a call of \<^verbatim>\<open>crawlFn\<close> leaves behind: the error it returns (\<^verbatim>\<open>None\<close> is \<^verbatim>\<open>nil\<close>) and
  the output file (\<^verbatim>\<open>None\<close> when \<^verbatim>\<open>os.Create\<close> was not reached or failed, else the bytes
  written into the new file).
\<close>

record Outcome =
  returned :: "error option"
  outfile :: "string option"

text \<open>
  The command line: the argument \<^verbatim>\<open>path\<close> and the flag \<^verbatim>\<open>--dump-dir\<close>. The flag is a pointer,
  which \<^verbatim>\<open>crawlFn\<close> tests against \<^verbatim>\<open>nil\<close>; kingpin always sets it, to the empty string when the
  flag is not given.
\<close>

record args =
  crawlPathArg :: string
  crawlDumpDir :: "string option"

text \<open>The end of \<^verbatim>\<open>crawlFn\<close>, from the test of \<^verbatim>\<open>len(events)\<close> on.\<close>

definition crawlFn_output :: "env \<Rightarrow> string \<Rightarrow> Event list \<Rightarrow> Outcome" where
  "crawlFn_output E outPath events =
     (if length events = 0 then \<lparr>returned = Some NoEventFound, outfile = None\<rparr>
      else case Create E outPath of
             Some m \<Rightarrow> \<lparr>returned = Some (External m), outfile = None\<rparr>
           | None \<Rightarrow>
               (case Encode E events of
                  (Some m, bytes) \<Rightarrow> \<lparr>returned = Some (External m), outfile = Some bytes\<rparr>
                | (None, bytes) \<Rightarrow> \<lparr>returned = None, outfile = Some bytes\<rparr>))"

definition crawlFn :: "env \<Rightarrow> 'u weblib \<Rightarrow> args \<Rightarrow> Outcome option" where
  "crawlFn E L a =
     (let outPath = crawlPathArg a;
          dumpDir = []
      in case (case crawlDumpDir a of
                 None \<Rightarrow> Inr dumpDir
               | Some d \<Rightarrow>
                   (case MkdirAll E d of
                      Some m \<Rightarrow> Inl (External m)
                    | None \<Rightarrow> Inr d)) of
           Inl err \<Rightarrow> Some \<lparr>returned = Some err, outfile = None\<rparr>
         | Inr dumpDir \<Rightarrow>
             (case url_Parse L ''https://www.brest.fr'' of
                Inl m \<Rightarrow> Some \<lparr>returned = Some (External m), outfile = None\<rparr>
              | Inr baseUrl \<Rightarrow>
                  (case crawl_loop E L baseUrl dumpDir ''/actus-agenda/agenda-132.html'' [] 0 of
                     None \<Rightarrow> None
                   | Some (Inl err) \<Rightarrow> Some \<lparr>returned = Some err, outfile = None\<rparr>
                   | Some (Inr events) \<Rightarrow> Some (crawlFn_output E outPath events))))"

text \<open>
  The state of the loop (\<^verbatim>\<open>path\<close>, \<^verbatim>\<open>events\<close>, \<^verbatim>\<open>pages\<close>) at the start of an iteration, \<^verbatim>\<open>n\<close>
  iterations after the state given; \<^verbatim>\<open>None\<close> when the loop is left before.
\<close>

fun crawl_at ::
  "env \<Rightarrow> 'u weblib \<Rightarrow> 'u \<Rightarrow> string \<Rightarrow> nat \<Rightarrow> string \<times> Event list \<times> nat
   \<Rightarrow> (string \<times> Event list \<times> nat) option"
where
  "crawl_at E L baseUrl dumpDir 0 s = Some s"
| "crawl_at E L baseUrl dumpDir (Suc n) (path, events, pages) =
     (case url_Parse L path of
        Inl m \<Rightarrow> None
      | Inr u \<Rightarrow>
          (case getPage E L (ResolveReference L baseUrl u) baseUrl dumpDir pages of
             Inl err \<Rightarrow> None
           | Inr p \<Rightarrow>
               if Next p = [] then None
               else crawl_at E L baseUrl dumpDir n (Next p, events @ Events p, pages + 1)))"

subsection \<open>The claims' own words\<close>

text \<open>
  The exclusive end boundary of an event as the specification words it: the end date if
  present, else the start date, plus one day. An end date is absent when it is the zero
  \<^verbatim>\<open>Time\<close>.
\<close>

definition exclusive_end :: "Event \<Rightarrow> int" where
  "exclusive_end ev =
     (if instant (End ev) \<noteq> 0 then instant (End ev) else instant (Start ev)) + 24 * Hour"

text \<open>
  The label of a delta as the specification words it: nothing for 0; the explicitly signed
  truncated quotient by 30 and \<^verbatim>\<open>m\<close> when the magnitude exceeds 30; else the explicitly signed
  delta and \<^verbatim>\<open>j\<close>.
\<close>

definition signed_decimal :: "int \<Rightarrow> string" where
  "signed_decimal q = (if q < 0 then ''-'' else ''+'') @ decimal (nat \<bar>q\<bar>)"

definition delta_label :: "int \<Rightarrow> string" where
  "delta_label d =
     (if d = 0 then []
      else if \<bar>d\<bar> > 30 then signed_decimal (d sdiv 30) @ ''m''
      else signed_decimal d @ ''j'')"

text \<open>
  The attribute values the extractor reads from an item: the \<^verbatim>\<open>datetime\<close> of the first and
  of the second \<^verbatim>\<open>time\<close> node, and the \<^verbatim>\<open>href\<close>; the empty string when missing.
\<close>

definition start_attr :: "Item \<Rightarrow> string" where
  "start_attr item = fst (Eq_Attr (date_times item) 0)"

definition end_attr :: "Item \<Rightarrow> string" where
  "end_attr item = fst (Eq_Attr (date_times item) 1)"

definition link_attr :: "Item \<Rightarrow> string" where
  "link_attr item = fst (Attr (linkView_href item))"

text \<open>A date string is unparseable when \<^verbatim>\<open>time.Parse\<close> returns an error for it.\<close>

definition rejected :: "'u weblib \<Rightarrow> string \<Rightarrow> bool" where
  "rejected L s = isl (time_Parse L s)"

text \<open>
  The dates of an item are refused when its start value is unparseable, or its end value
  is not empty and unparseable. An item is accepted when moreover its \<^verbatim>\<open>href\<close> parses as a
  URL.
\<close>

definition dates_refused :: "'u weblib \<Rightarrow> Item \<Rightarrow> bool" where
  "dates_refused L item =
     (rejected L (start_attr item) \<or> (end_attr item \<noteq> [] \<and> rejected L (end_attr item)))"

definition item_accepted :: "'u weblib \<Rightarrow> Item \<Rightarrow> bool" where
  "item_accepted L item =
     (\<not> isl (url_Parse L (link_attr item)) \<and> \<not> dates_refused L item)"

subsection \<open>Example inputs\<close>

text \<open>
  A library instance for the examples: a machine whose local zone is UTC. Dates are
  formatted from a table of the days the examples use (2024-05-01 is day 739006 after
  0001-01-01); the weekday and the day count are exact for instants at midnight UTC.
\<close>

definition day_ns :: int where
  "day_ns = 86400000000000"

definition midnight :: "int \<Rightarrow> Location \<Rightarrow> Time" where
  "midnight day l = \<lparr>instant = day * day_ns, loc = l\<rparr>"

definition example_Format :: "Time \<Rightarrow> string" where
  "example_Format t =
     (let day = instant t div day_ns
      in if day = 0 then ''0001-01-01''
         else if day = 739006 then ''2024-05-01''
         else if day = 739014 then ''2024-05-09''
         else if day = 739015 then ''2024-05-10''
         else if day = 739016 then ''2024-05-11''
         else if day = 739017 then ''2024-05-12''
         else if day = 739025 then ''2024-05-20''
         else if day = 739060 then ''2024-06-24''
         else ''another day'')"

definition example_Weekday :: "Time \<Rightarrow> Weekday" where
  "example_Weekday t =
     [Sunday, Monday, Tuesday, Wednesday, Thursday, Friday, Saturday]
       ! nat ((instant t div day_ns + 1) mod 7)"

definition example_timelib :: timelib where
  "example_timelib =
     \<lparr>Time_Format = example_Format,
      Time_Weekday = example_Weekday,
      HoursDiv24 = (\<lambda>d. d sdiv day_ns)\<rparr>"

text \<open>Today is 2024-05-10.\<close>

definition example_now :: Time where
  "example_now = midnight 739015 Local"

text \<open>The same midnight on a machine in the zone of Brest, two hours ahead of UTC in May.\<close>

definition example_now_brest :: Time where
  "example_now_brest = \<lparr>instant = 739015 * day_ns - 2 * Hour, loc = Local\<rparr>"

definition example_event :: "string \<Rightarrow> int \<Rightarrow> int option \<Rightarrow> Event" where
  "example_event t first_day last_day =
     \<lparr>Title = t, Desc = [], Category = [],
      Link = ''https://www.brest.fr/evt/'' @ t,
      Start = midnight first_day UTC,
      End = (case last_day of None \<Rightarrow> zeroTime | Some d \<Rightarrow> midnight d UTC)\<rparr>"

text \<open>
  A library instance for the crawler's examples. URLs are their strings; a reference
  (empty, or a path from the root) is resolved against the base \<^verbatim>\<open>https://www.brest.fr\<close> by
  appending it. \<^verbatim>\<open>TrimSpace\<close> trims the ASCII white space; the date parser knows the dates
  of the examples.
\<close>

definition example_space :: "char \<Rightarrow> bool" where
  "example_space c = (c \<in> set [CHR '' '', CHR 0x09, CHR 0x0A, CHR 0x0D])"

definition example_TrimSpace :: "string \<Rightarrow> string" where
  "example_TrimSpace s = rev (dropWhile example_space (rev (dropWhile example_space s)))"

definition example_Parse :: "string \<Rightarrow> string + Time" where
  "example_Parse s =
     (if s = ''2024-05-01'' then Inr (midnight 739006 UTC)
      else if s = ''2024-05-12'' then Inr (midnight 739017 UTC)
      else if s = ''2024-05-20'' then Inr (midnight 739025 UTC)
      else Inl ''cannot parse'')"

text \<open>
  Three items: one with a title and a start date only, whose second \<^verbatim>\<open>time\<close> node has an
  empty \<^verbatim>\<open>datetime\<close>; a complete one; one with no \<^verbatim>\<open>time\<close> node.
\<close>

definition example_item_bare :: Item where
  "example_item_bare =
     \<lparr>title_h3 = Some '' Fest-noz '', chapeau_div = None, category_p = None,
      linkView_href = None, date_times = [Some ''2024-05-01'', Some []]\<rparr>"

definition example_item_full :: Item where
  "example_item_full =
     \<lparr>title_h3 = Some ''Regate'', chapeau_div = Some ''En rade'', category_p = Some ''Sport'',
      linkView_href = Some ''/evt/123.html'',
      date_times = [Some ''2024-05-12'', Some ''2024-05-20'']\<rparr>"

definition example_item_undated :: Item where
  "example_item_undated =
     \<lparr>title_h3 = Some ''Sans date'', chapeau_div = None, category_p = None,
      linkView_href = Some ''/evt/7.html'', date_times = []\<rparr>"

definition example_page :: Document where
  "example_page =
     \<lparr>listItems = [example_item_bare, example_item_full], link_next = Some ''/page2.html''\<rparr>"

definition example_weblib :: "string weblib" where
  "example_weblib =
     \<lparr>TrimSpace = example_TrimSpace,
      url_Parse = Inr,
      ResolveReference = (\<lambda>base ref. base @ ref),
      URL_String = (\<lambda>u. u),
      time_Parse = example_Parse,
      NewDocumentFromReader = (\<lambda>data. if data = ''page 1'' then Inr example_page else Inl ''no document'')\<rparr>"

definition example_events :: "Event list" where
  "example_events =
     [\<lparr>Title = ''Fest-noz'', Desc = [], Category = [], Link = ''https://www.brest.fr'',
       Start = midnight 739006 UTC, End = zeroTime\<rparr>,
      \<lparr>Title = ''Regate'', Desc = ''En rade'', Category = ''Sport'',
       Link = ''https://www.brest.fr/evt/123.html'',
       Start = midnight 739017 UTC, End = midnight 739025 UTC\<rparr>]"

text \<open>
  A site of two pages, with the status codes of the first and of the second request as
  arguments. The encoder of the example writes the titles (a stand-in for the JSON text).
\<close>

definition example_Encode :: "Event list \<Rightarrow> string option \<times> string" where
  "example_Encode events = (None, concat (map (\<lambda>ev. Title ev @ ''; '') events))"

definition example_env :: "int \<Rightarrow> int \<Rightarrow> env" where
  "example_env first second =
     \<lparr>MkdirAll = (\<lambda>d. None),
      Get = (\<lambda>n u.
        if n = 0 \<and> u = ''https://www.brest.fr/actus-agenda/agenda-132.html''
        then Inr \<lparr>StatusCode = first, Body = Inr ''page 1''\<rparr>
        else if n = 1 \<and> u = ''https://www.brest.fr/page2.html''
        then Inr \<lparr>StatusCode = second, Body = Inr ''page 2''\<rparr>
        else Inl ''no such host''),
      WriteFile = (\<lambda>d n data. None),
      Create = (\<lambda>p. None),
      Encode = example_Encode\<rparr>"

definition example_args :: args where
  "example_args = \<lparr>crawlPathArg = ''events.json'', crawlDumpDir = Some ''dump''\<rparr>"

text \<open>The value of \<^verbatim>\<open>Entries{}\<close>.\<close>

abbreviation "no_entries \<equiv> \<lparr>Before_entries = [], After_entries = [], HasAfter = False\<rparr>"

section \<open>Properties\<close>

subsection \<open>sort.Sort permutes and sorts\<close>

lemma mset_sink: "mset (sink lt x xs) = add_mset x (mset xs)"
  by (induction xs) auto

lemma mset_sink_fold: "mset (foldl (\<lambda>a x. sink lt x a) acc xs) = mset acc + mset xs"
  by (induction xs arbitrary: acc) (auto simp: mset_sink)

lemma mset_sort_Sort: "mset (sort_Sort lt xs) = mset xs"
  by (simp add: sort_Sort_def mset_sink_fold)

lemma set_sort_Sort: "set (sort_Sort lt xs) = set xs"
  using mset_sort_Sort [of lt xs] by (metis set_mset_mset)

lemma set_sink: "set (sink lt x xs) = insert x (set xs)"
  using mset_sink [of lt x xs] by (metis set_mset_mset set_mset_add_mset_insert)

lemma sorted_sink_Less:
  "sorted (map Delta ys) \<Longrightarrow> sorted (map Delta (sink Less x ys))"
  by (induction ys) (auto simp: Less_def set_sink)

lemma sorted_sink_fold:
  "sorted (map Delta acc) \<Longrightarrow> sorted (map Delta (foldl (\<lambda>a x. sink Less x a) acc xs))"
  by (induction xs arbitrary: acc) (auto simp: sorted_sink_Less)

lemma sorted_sort_Sort: "sorted (map Delta (sort_Sort Less xs))"
  by (simp add: sort_Sort_def sorted_sink_fold)

subsection \<open>The loop of writeHtml\<close>

lemma Before_writeHtml:
  "Before_entries (writeHtml L now events) =
     sort_Sort Less (Before_entries (foldl (writeHtml_body L now) no_entries events))"
  by (simp add: writeHtml_def Let_def)

lemma After_writeHtml:
  "After_entries (writeHtml L now events) =
     sort_Sort Less (After_entries (foldl (writeHtml_body L now) no_entries events))"
  by (simp add: writeHtml_def Let_def)

lemma Sprintf_signed: "Sprintf_plus_d x = signed_decimal x"
  by (simp add: Sprintf_plus_d_def signed_decimal_def)

lemma formatDuration_label: "d \<noteq> 0 \<Longrightarrow> formatDuration d = delta_label d"
  by (auto simp: formatDuration_def delta_label_def Sprintf_signed)


lemma deltaStr_label:
  "c = (d \<noteq> 0) \<Longrightarrow> (if c then formatDuration d else []) = delta_label d"
  by (simp add: formatDuration_label) (simp add: delta_label_def)

lemma last_day_eq:
  "Time_Add (if \<not> Time_IsZero (End ev) then Time_Add (End ev) (24 * Hour) else Time_Add (Start ev) (24 * Hour)) (- 24 * Hour)
     = (if Time_IsZero (End ev) then Start ev else End ev)"
  by (simp add: Time_Add_def)

lemma before_endDate:
  "Time_Before now (if \<not> Time_IsZero (End ev) then Time_Add (End ev) (24 * Hour) else Time_Add (Start ev) (24 * Hour))
     = (instant now < exclusive_end ev)"
  by (simp add: Time_Before_def Time_IsZero_def Time_Add_def exclusive_end_def)

lemma body_skip:
  "exclusive_end ev \<le> instant now \<Longrightarrow> writeHtml_body L now es ev = es"
  by (simp add: writeHtml_body_def Let_def before_endDate)

lemma body_before:
  assumes "instant now < exclusive_end ev" and "instant (Start ev) < instant now"
  shows "\<exists>e. writeHtml_body L now es ev = es\<lparr>Before_entries := Before_entries es @ [e]\<rparr>
          \<and> Link_html e = Link ev \<and> Title_html e = Title ev
          \<and> Start_html e = Time_Format L (Start ev)
          \<and> End_html e = Time_Format L (if Time_IsZero (End ev) then Start ev else End ev)
          \<and> DeltaStr e = delta_label (Delta e)"
proof -
  have started: "Time_Before (Start ev) now"
    using assms(2) by (simp add: Time_Before_def)
  show ?thesis
    unfolding writeHtml_body_def Let_def before_endDate last_day_eq
    using assms(1) started
    by (auto simp: deltaStr_label)
qed

lemma body_after:
  assumes "instant now < exclusive_end ev" and "instant now \<le> instant (Start ev)"
  shows "\<exists>e. writeHtml_body L now es ev = es\<lparr>After_entries := After_entries es @ [e]\<rparr>
          \<and> Link_html e = Link ev \<and> Title_html e = Title ev
          \<and> Start_html e = Time_Format L (Start ev)
          \<and> End_html e = Time_Format L (if Time_IsZero (End ev) then Start ev else End ev)
          \<and> DeltaStr e = delta_label (Delta e)"
proof -
  have not_started: "\<not> Time_Before (Start ev) now"
    using assms(2) by (simp add: Time_Before_def)
  show ?thesis
    unfolding writeHtml_body_def Let_def before_endDate last_day_eq
    using assms(1) not_started
    by (auto simp: deltaStr_label)
qed


lemma body_Before_proj:
  "map (\<lambda>e. (Link_html e, Title_html e)) (Before_entries (writeHtml_body L now es ev)) =
     map (\<lambda>e. (Link_html e, Title_html e)) (Before_entries es) @
     map (\<lambda>ev. (Link ev, Title ev))
       (filter (\<lambda>ev. instant now < exclusive_end ev \<and> instant (Start ev) < instant now) [ev])"
proof -
  consider (skip) "exclusive_end ev \<le> instant now"
    | (before) "instant now < exclusive_end ev" "instant (Start ev) < instant now"
    | (after) "instant now < exclusive_end ev" "instant now \<le> instant (Start ev)"
    by linarith
  then show ?thesis
  proof cases
    case skip
    then show ?thesis by (simp add: body_skip)
  next
    case before
    from body_before [OF before, of L es] obtain e where
      "writeHtml_body L now es ev = es\<lparr>Before_entries := Before_entries es @ [e]\<rparr>"
      "Link_html e = Link ev" "Title_html e = Title ev"
      by blast
    with before show ?thesis by simp
  next
    case after
    from body_after [OF after, of L es] obtain e where
      "writeHtml_body L now es ev = es\<lparr>After_entries := After_entries es @ [e]\<rparr>"
      by blast
    with after show ?thesis by simp
  qed
qed

lemma body_After_proj:
  "map (\<lambda>e. (Link_html e, Title_html e)) (After_entries (writeHtml_body L now es ev)) =
     map (\<lambda>e. (Link_html e, Title_html e)) (After_entries es) @
     map (\<lambda>ev. (Link ev, Title ev))
       (filter (\<lambda>ev. instant now < exclusive_end ev \<and> instant now \<le> instant (Start ev)) [ev])"
proof -
  consider (skip) "exclusive_end ev \<le> instant now"
    | (before) "instant now < exclusive_end ev" "instant (Start ev) < instant now"
    | (after) "instant now < exclusive_end ev" "instant now \<le> instant (Start ev)"
    by linarith
  then show ?thesis
  proof cases
    case skip
    then show ?thesis by (simp add: body_skip)
  next
    case before
    from body_before [OF before, of L es] obtain e where
      "writeHtml_body L now es ev = es\<lparr>Before_entries := Before_entries es @ [e]\<rparr>"
      by blast
    with before show ?thesis by simp
  next
    case after
    from body_after [OF after, of L es] obtain e where
      "writeHtml_body L now es ev = es\<lparr>After_entries := After_entries es @ [e]\<rparr>"
      "Link_html e = Link ev" "Title_html e = Title ev"
      by blast
    with after show ?thesis by simp
  qed
qed

lemma fold_Before_proj:
  "map (\<lambda>e. (Link_html e, Title_html e)) (Before_entries (foldl (writeHtml_body L now) es evs)) =
     map (\<lambda>e. (Link_html e, Title_html e)) (Before_entries es) @
     map (\<lambda>ev. (Link ev, Title ev))
       (filter (\<lambda>ev. instant now < exclusive_end ev \<and> instant (Start ev) < instant now) evs)"
proof (induction evs arbitrary: es)
  case Nil
  show ?case by simp
next
  case (Cons ev evs)
  show ?case
    using Cons.IH [of "writeHtml_body L now es ev"] body_Before_proj [of L now es ev]
    by simp
qed

lemma fold_After_proj:
  "map (\<lambda>e. (Link_html e, Title_html e)) (After_entries (foldl (writeHtml_body L now) es evs)) =
     map (\<lambda>e. (Link_html e, Title_html e)) (After_entries es) @
     map (\<lambda>ev. (Link ev, Title ev))
       (filter (\<lambda>ev. instant now < exclusive_end ev \<and> instant now \<le> instant (Start ev)) evs)"
proof (induction evs arbitrary: es)
  case Nil
  show ?case by simp
next
  case (Cons ev evs)
  show ?case
    using Cons.IH [of "writeHtml_body L now es ev"] body_After_proj [of L now es ev]
    by simp
qed

text \<open>
  Claim C1. Let \<^verbatim>\<open>now\<close> be the current date at midnight. An event for which \<^verbatim>\<open>now\<close> is on or
  after the exclusive end boundary yields no entry. Every other event yields one entry: in
  the group \<^verbatim>\<open>Before\<close> when its start is strictly before \<^verbatim>\<open>now\<close>, in the group \<^verbatim>\<open>After\<close> when
  its start is on or after \<^verbatim>\<open>now\<close>. Entries are told apart by link and title, and each group
  is compared as a multiset, since the groups are sorted afterwards.
\<close>

theorem C1_bucketing:
  "mset (map (\<lambda>e. (Link_html e, Title_html e)) (Before_entries (writeHtml L now events))) =
     mset (map (\<lambda>ev. (Link ev, Title ev))
       (filter (\<lambda>ev. instant now < exclusive_end ev \<and> instant (Start ev) < instant now) events))
   \<and> mset (map (\<lambda>e. (Link_html e, Title_html e)) (After_entries (writeHtml L now events))) =
     mset (map (\<lambda>ev. (Link ev, Title ev))
       (filter (\<lambda>ev. instant now < exclusive_end ev \<and> instant now \<le> instant (Start ev)) events))"
proof -
  have sorted_proj: "mset (map f (sort_Sort Less xs)) = mset (map f xs)"
    for f :: "HtmlEntry \<Rightarrow> string \<times> string" and xs
    using mset_sort_Sort [of Less xs] by (metis mset_map)
  have before: "mset (map (\<lambda>e. (Link_html e, Title_html e)) (Before_entries (writeHtml L now events))) =
     mset (map (\<lambda>ev. (Link ev, Title ev))
       (filter (\<lambda>ev. instant now < exclusive_end ev \<and> instant (Start ev) < instant now) events))"
    unfolding Before_writeHtml sorted_proj fold_Before_proj by simp
  have after: "mset (map (\<lambda>e. (Link_html e, Title_html e)) (After_entries (writeHtml L now events))) =
     mset (map (\<lambda>ev. (Link ev, Title ev))
       (filter (\<lambda>ev. instant now < exclusive_end ev \<and> instant now \<le> instant (Start ev)) events))"
    unfolding After_writeHtml sorted_proj fold_After_proj by simp
  from before after show ?thesis by (rule conjI)
qed


text \<open>
  Claim C6. After rendering, the entries of the group \<^verbatim>\<open>Before\<close> and the entries of the
  group \<^verbatim>\<open>After\<close> are each in non-decreasing order of their field \<^verbatim>\<open>Delta\<close>.
\<close>

theorem C6_groups_sorted:
  "sorted (map Delta (Before_entries (writeHtml L now events)))
   \<and> sorted (map Delta (After_entries (writeHtml L now events)))"
  by (simp add: Before_writeHtml After_writeHtml sorted_sort_Sort)

subsection \<open>The delta label\<close>

lemmas example_defs = example_timelib_def example_now_def example_event_def midnight_def
  day_ns_def example_Format_def example_Weekday_def zeroTime_def

lemmas writeHtml_defs = writeHtml_def writeHtml_body_def Let_def Time_Add_def Time_Before_def
  Time_IsZero_def Time_Sub_def Hour_def minDuration_def maxDuration_def sort_Sort_def
  Less_def Weekdays_def

lemma body_labels:
  assumes "\<forall>e \<in> set (Before_entries es) \<union> set (After_entries es). DeltaStr e = delta_label (Delta e)"
  shows "\<forall>e \<in> set (Before_entries (writeHtml_body L now es ev)) \<union> set (After_entries (writeHtml_body L now es ev)).
           DeltaStr e = delta_label (Delta e)"
proof -
  consider (skip) "exclusive_end ev \<le> instant now"
    | (before) "instant now < exclusive_end ev" "instant (Start ev) < instant now"
    | (after) "instant now < exclusive_end ev" "instant now \<le> instant (Start ev)"
    by linarith
  then show ?thesis
  proof cases
    case skip
    with assms show ?thesis by (simp add: body_skip)
  next
    case before
    from body_before [OF before, of L es] obtain e where
      "writeHtml_body L now es ev = es\<lparr>Before_entries := Before_entries es @ [e]\<rparr>"
      "DeltaStr e = delta_label (Delta e)"
      by blast
    with assms show ?thesis by auto
  next
    case after
    from body_after [OF after, of L es] obtain e where
      "writeHtml_body L now es ev = es\<lparr>After_entries := After_entries es @ [e]\<rparr>"
      "DeltaStr e = delta_label (Delta e)"
      by blast
    with assms show ?thesis by auto
  qed
qed

lemma fold_labels:
  "\<forall>e \<in> set (Before_entries es) \<union> set (After_entries es). DeltaStr e = delta_label (Delta e)
   \<Longrightarrow> \<forall>e \<in> set (Before_entries (foldl (writeHtml_body L now) es evs))
              \<union> set (After_entries (foldl (writeHtml_body L now) es evs)).
         DeltaStr e = delta_label (Delta e)"
proof (induction evs arbitrary: es)
  case Nil
  then show ?case by simp
next
  case (Cons ev evs)
  from Cons.IH [OF body_labels [OF Cons.prems, of L now ev]]
  show ?case by simp
qed

lemma decimal_digit: "n < 10 \<Longrightarrow> decimal n = [digit_char n]"
  by (simp add: decimal.simps)

text \<open>
  Claim C2. For every delta computed during rendering: 0 is rendered as the empty string;
  a delta whose magnitude exceeds 30 is rendered as the explicitly signed quotient by 30,
  truncated towards zero, followed by \<^verbatim>\<open>m\<close>; any other delta is rendered explicitly signed
  and followed by \<^verbatim>\<open>j\<close>. In particular 45 is rendered \<^verbatim>\<open>+1m\<close> and -61 is rendered \<^verbatim>\<open>-2m\<close>.
\<close>

theorem C2_delta_label:
  "(\<forall>e \<in> set (Before_entries (writeHtml L now events)) \<union> set (After_entries (writeHtml L now events)).
      DeltaStr e = delta_label (Delta e))
   \<and> delta_label 0 = []
   \<and> delta_label 45 = ''+1m'' \<and> formatDuration 45 = ''+1m''
   \<and> delta_label (- 61) = ''-2m'' \<and> formatDuration (- 61) = ''-2m''"
proof -
  have "\<forall>e \<in> set (Before_entries (writeHtml L now events)) \<union> set (After_entries (writeHtml L now events)).
      DeltaStr e = delta_label (Delta e)"
    unfolding Before_writeHtml After_writeHtml set_sort_Sort
    by (rule fold_labels) simp
  moreover have "delta_label 0 = []"
    by (simp add: delta_label_def)
  moreover have "delta_label 45 = ''+1m''" "delta_label (- 61) = ''-2m''"
    by (simp_all add: delta_label_def signed_decimal_def signed_divide_int_def decimal_digit digit_char_def)
  moreover have "formatDuration 45 = ''+1m''" "formatDuration (- 61) = ''-2m''"
    by (simp_all add: formatDuration_def Sprintf_plus_d_def signed_divide_int_def decimal_digit digit_char_def)
  ultimately show ?thesis by blast
qed

text \<open>An event that starts 45 days after today is rendered with the label \<^verbatim>\<open>+1m\<close>.\<close>

lemma example_c:
  "writeHtml example_timelib example_now [example_event ''c'' 739060 None] =
     \<lparr>Before_entries = [],
      After_entries = [\<lparr>Link_html = ''https://www.brest.fr/evt/c'', Start_html = ''2024-06-24'',
         End_html = ''2024-06-24'', DeltaStr = ''+1m'', Delta = 45, Title_html = ''c'',
         Weekday = ''Lu''\<rparr>],
      HasAfter = False\<rparr>"
  by (simp add: writeHtml_defs example_defs formatDuration_def Sprintf_plus_d_def signed_divide_int_def decimal_digit digit_char_def)

theorem C2_delta_label_witness:
  "After_entries (writeHtml example_timelib example_now [example_event ''c'' 739060 None]) \<noteq> []
   \<and> Delta (hd (After_entries (writeHtml example_timelib example_now [example_event ''c'' 739060 None]))) = 45
   \<and> DeltaStr (hd (After_entries (writeHtml example_timelib example_now [example_event ''c'' 739060 None]))) = ''+1m''"
proof -
  let ?out = "writeHtml example_timelib example_now [example_event ''c'' 739060 None]"
  have shown: "After_entries ?out \<noteq> []" and delta: "Delta (hd (After_entries ?out)) = 45"
    by (simp_all add: example_c)
  from shown have "hd (After_entries ?out) \<in> set (Before_entries ?out) \<union> set (After_entries ?out)"
    by simp
  with C2_delta_label [of example_timelib example_now "[example_event ''c'' 739060 None]"]
  have "DeltaStr (hd (After_entries ?out)) = delta_label (Delta (hd (After_entries ?out)))"
    and "delta_label 45 = ''+1m''"
    by blast+
  with shown delta show ?thesis by simp
qed

subsection \<open>Groups, dates and skipped events\<close>

text \<open>
  Claim C4 as stated: an event whose start equals the current date is placed in the group
  \<^verbatim>\<open>Before\<close>. The loop tests \<^verbatim>\<open>!startDate.Before(now)\<close>, so such an event is placed in the
  group \<^verbatim>\<open>After\<close>: here an event that starts on 2024-05-10, rendered on 2024-05-10, on a
  machine in the zone UTC (start and \<^verbatim>\<open>now\<close> are the same instant) and on a machine in the
  zone of Brest (\<^verbatim>\<open>now\<close> is two hours before the start).
\<close>

theorem C4_start_today_counterexample:
  "instant (Start (example_event ''b'' 739015 None)) = instant example_now
   \<and> Before_entries (writeHtml example_timelib example_now [example_event ''b'' 739015 None]) = []
   \<and> map Title_html (After_entries (writeHtml example_timelib example_now [example_event ''b'' 739015 None])) = [''b'']
   \<and> Before_entries (writeHtml example_timelib example_now_brest [example_event ''b'' 739015 None]) = []
   \<and> map Title_html (After_entries (writeHtml example_timelib example_now_brest [example_event ''b'' 739015 None])) = [''b'']"
  by (simp add: writeHtml_defs example_defs example_now_brest_def)

text \<open>
  Claim C4, amended. A rendered event whose start is strictly before \<^verbatim>\<open>now\<close> is placed in
  the group \<^verbatim>\<open>Before\<close>; a rendered event whose start is \<^verbatim>\<open>now\<close> or later is placed in the
  group \<^verbatim>\<open>After\<close>. (One iteration of the loop, for an event that is not skipped.)
\<close>

theorem C4_start_decides_group:
  assumes "instant now < exclusive_end ev"
  shows "(instant (Start ev) < instant now \<longrightarrow>
           (\<exists>e. writeHtml_body L now es ev = es\<lparr>Before_entries := Before_entries es @ [e]\<rparr>
                \<and> Link_html e = Link ev \<and> Title_html e = Title ev))
       \<and> (instant now \<le> instant (Start ev) \<longrightarrow>
           (\<exists>e. writeHtml_body L now es ev = es\<lparr>After_entries := After_entries es @ [e]\<rparr>
                \<and> Link_html e = Link ev \<and> Title_html e = Title ev))"
  using body_before [OF assms, of L es] body_after [OF assms, of L es] by blast

theorem C4_start_decides_group_witness:
  "instant example_now < exclusive_end (example_event ''b'' 739015 None)
   \<and> instant example_now \<le> instant (Start (example_event ''b'' 739015 None))
   \<and> (\<exists>e. writeHtml_body example_timelib example_now no_entries (example_event ''b'' 739015 None)
            = no_entries\<lparr>After_entries := After_entries no_entries @ [e]\<rparr>
          \<and> Link_html e = Link (example_event ''b'' 739015 None) \<and> Title_html e = Title (example_event ''b'' 739015 None))
   \<and> instant example_now < exclusive_end (example_event ''f'' 739014 (Some 739015))
   \<and> instant (Start (example_event ''f'' 739014 (Some 739015))) < instant example_now
   \<and> (\<exists>e. writeHtml_body example_timelib example_now no_entries (example_event ''f'' 739014 (Some 739015))
            = no_entries\<lparr>Before_entries := Before_entries no_entries @ [e]\<rparr>
          \<and> Link_html e = Link (example_event ''f'' 739014 (Some 739015)) \<and> Title_html e = Title (example_event ''f'' 739014 (Some 739015)))"
proof -
  let ?b = "example_event ''b'' 739015 None"
  let ?f = "example_event ''f'' 739014 (Some 739015)"
  have b: "instant example_now < exclusive_end ?b" "instant example_now \<le> instant (Start ?b)"
    by (simp_all add: exclusive_end_def example_defs Hour_def)
  have f: "instant example_now < exclusive_end ?f" "instant (Start ?f) < instant example_now"
    by (simp_all add: exclusive_end_def example_defs Hour_def)
  from C4_start_decides_group [OF b(1), of example_timelib no_entries] b(2)
  have "\<exists>e. writeHtml_body example_timelib example_now no_entries ?b
            = no_entries\<lparr>After_entries := After_entries no_entries @ [e]\<rparr>
          \<and> Link_html e = Link ?b \<and> Title_html e = Title ?b"
    by blast
  moreover from C4_start_decides_group [OF f(1), of example_timelib no_entries] f(2)
  have "\<exists>e. writeHtml_body example_timelib example_now no_entries ?f
            = no_entries\<lparr>Before_entries := Before_entries no_entries @ [e]\<rparr>
          \<and> Link_html e = Link ?f \<and> Title_html e = Title ?f"
    by blast
  ultimately show ?thesis using b f by blast
qed

text \<open>
  Claim C8. For every rendered event whose end date is absent, the rendered end date
  string equals the rendered start date string. (One iteration of the loop: the event is
  skipped, or the one entry it adds to a group has equal date strings.)
\<close>

theorem C8_absent_end:
  assumes "Time_IsZero (End ev)"
  shows "writeHtml_body L now es ev = es
       \<or> (\<exists>e. End_html e = Start_html e
              \<and> (writeHtml_body L now es ev = es\<lparr>Before_entries := Before_entries es @ [e]\<rparr>
                 \<or> writeHtml_body L now es ev = es\<lparr>After_entries := After_entries es @ [e]\<rparr>))"
proof -
  consider (skip) "exclusive_end ev \<le> instant now"
    | (before) "instant now < exclusive_end ev" "instant (Start ev) < instant now"
    | (after) "instant now < exclusive_end ev" "instant now \<le> instant (Start ev)"
    by linarith
  then show ?thesis
  proof cases
    case skip
    then show ?thesis by (simp add: body_skip)
  next
    case before
    from body_before [OF before, of L es] obtain e where
      step: "writeHtml_body L now es ev = es\<lparr>Before_entries := Before_entries es @ [e]\<rparr>"
      and dates: "Start_html e = Time_Format L (Start ev)"
        "End_html e = Time_Format L (if Time_IsZero (End ev) then Start ev else End ev)"
      by blast
    from dates assms have "End_html e = Start_html e" by simp
    with step show ?thesis by blast
  next
    case after
    from body_after [OF after, of L es] obtain e where
      step: "writeHtml_body L now es ev = es\<lparr>After_entries := After_entries es @ [e]\<rparr>"
      and dates: "Start_html e = Time_Format L (Start ev)"
        "End_html e = Time_Format L (if Time_IsZero (End ev) then Start ev else End ev)"
      by blast
    from dates assms have "End_html e = Start_html e" by simp
    with step show ?thesis by blast
  qed
qed

theorem C8_absent_end_witness:
  "Time_IsZero (End (example_event ''b'' 739015 None))
   \<and> writeHtml_body example_timelib example_now no_entries (example_event ''b'' 739015 None) \<noteq> no_entries
   \<and> (\<exists>e. End_html e = Start_html e
          \<and> (writeHtml_body example_timelib example_now no_entries (example_event ''b'' 739015 None)
                = no_entries\<lparr>Before_entries := Before_entries no_entries @ [e]\<rparr>
             \<or> writeHtml_body example_timelib example_now no_entries (example_event ''b'' 739015 None)
                = no_entries\<lparr>After_entries := After_entries no_entries @ [e]\<rparr>))"
proof -
  let ?b = "example_event ''b'' 739015 None"
  have absent: "Time_IsZero (End ?b)"
    by (simp add: Time_IsZero_def example_defs)
  have rendered: "writeHtml_body example_timelib example_now no_entries ?b \<noteq> no_entries"
    by (simp add: writeHtml_defs example_defs)
  from C8_absent_end [OF absent, of example_timelib example_now no_entries] rendered absent
  show ?thesis by blast
qed

text \<open>
  Claim C10. An event with a present end date whose following day is on or before \<^verbatim>\<open>now\<close>
  yields no entry, whatever its start date: the iteration leaves the entries unchanged,
  and \<^verbatim>\<open>writeHtml\<close> gives the same result with and without the event. The example has its
  start after \<^verbatim>\<open>now\<close> and its end before.
\<close>

theorem C10_past_end_dropped:
  assumes "\<not> Time_IsZero (End ev)" and "instant (End ev) + 24 * Hour \<le> instant now"
  shows "writeHtml_body L now es ev = es
       \<and> writeHtml L now (xs @ ev # ys) = writeHtml L now (xs @ ys)"
proof -
  from assms have past: "exclusive_end ev \<le> instant now"
    by (simp add: exclusive_end_def Time_IsZero_def)
  then have skip: "writeHtml_body L now es' ev = es'" for es'
    by (rule body_skip)
  then show ?thesis
    by (simp add: writeHtml_def)
qed

theorem C10_past_end_dropped_witness:
  "instant example_now < instant (Start (example_event ''e'' 739016 (Some 739014)))
   \<and> \<not> Time_IsZero (End (example_event ''e'' 739016 (Some 739014)))
   \<and> instant (End (example_event ''e'' 739016 (Some 739014))) + 24 * Hour \<le> instant example_now
   \<and> writeHtml_body example_timelib example_now no_entries (example_event ''e'' 739016 (Some 739014)) = no_entries
   \<and> writeHtml example_timelib example_now [example_event ''e'' 739016 (Some 739014)]
       = writeHtml example_timelib example_now []"
proof -
  let ?e = "example_event ''e'' 739016 (Some 739014)"
  have later: "instant example_now < instant (Start ?e)"
    and present: "\<not> Time_IsZero (End ?e)"
    and past: "instant (End ?e) + 24 * Hour \<le> instant example_now"
    by (simp_all add: Time_IsZero_def example_defs Hour_def)
  from C10_past_end_dropped [OF present past, of example_timelib no_entries "[]" "[]"] later present past
  show ?thesis by simp
qed

subsection \<open>The extractor\<close>

lemmas example_web_defs = example_weblib_def example_Parse_def example_TrimSpace_def example_space_def
  example_item_bare_def example_item_full_def example_item_undated_def example_page_def
  midnight_def day_ns_def zeroTime_def

lemmas extract_defs = extractEvents_def extractEvents_item_def Text_def Attr_def Eq_Attr_def Let_def

lemma missing_attr: "\<not> snd (Eq_Attr dates i) \<Longrightarrow> fst (Eq_Attr dates i) = []"
  by (auto simp: Eq_Attr_def Attr_def split: option.splits if_splits)

lemma loop_error:
  "\<exists>item \<in> set items. dates_refused L item \<Longrightarrow> isl (extractEvents_loop L baseUrl items events)"
proof (induction items arbitrary: events)
  case Nil
  then show ?case by simp
next
  case (Cons item items)
  show ?case
  proof (cases "extractEvents_item L baseUrl item")
    case (Inl err)
    then show ?thesis by simp
  next
    case (Inr ev)
    then have "\<not> dates_refused L item"
      by (auto simp: extractEvents_item_def dates_refused_def rejected_def start_attr_def end_attr_def Let_def
          split: sum.splits if_splits)
    with Cons.prems have "\<exists>item \<in> set items. dates_refused L item" by simp
    from Cons.IH [OF this] Inr show ?thesis by simp
  qed
qed

lemma item_accepted_event:
  assumes "item_accepted L item"
  shows "\<exists>ev. extractEvents_item L baseUrl item = Inr ev
          \<and> Title ev = TrimSpace L (Text (title_h3 item))
          \<and> Desc ev = TrimSpace L (Text (chapeau_div item))
          \<and> Category ev = TrimSpace L (Text (category_p item))
          \<and> (\<exists>u. url_Parse L (link_attr item) = Inr u \<and> Link ev = URL_String L (ResolveReference L baseUrl u))
          \<and> time_Parse L (start_attr item) = Inr (Start ev)
          \<and> (if end_attr item = [] then End ev = zeroTime else time_Parse L (end_attr item) = Inr (End ev))"
  using assms
  by (cases "end_attr item = []")
    (auto simp: item_accepted_def extractEvents_item_def dates_refused_def rejected_def start_attr_def
      end_attr_def link_attr_def Let_def split: sum.splits)

lemma loop_accepted:
  "\<forall>item \<in> set items. item_accepted L item \<Longrightarrow>
   \<exists>evs. extractEvents_loop L baseUrl items events = Inr (events @ evs) \<and> length evs = length items"
proof (induction items arbitrary: events)
  case Nil
  then show ?case by simp
next
  case (Cons item items)
  then have "item_accepted L item" by simp
  from item_accepted_event [OF this, of baseUrl] obtain ev where
    ev: "extractEvents_item L baseUrl item = Inr ev" by blast
  from Cons.prems have "\<forall>item \<in> set items. item_accepted L item" by simp
  from Cons.IH [OF this, of "events @ [ev]"] obtain evs where
    "extractEvents_loop L baseUrl items (events @ [ev]) = Inr ((events @ [ev]) @ evs)" "length evs = length items"
    by blast
  with ev have "extractEvents_loop L baseUrl (item # items) events = Inr (events @ (ev # evs)) \<and> length (ev # evs) = length (item # items)"
    by simp
  then show ?case by blast
qed

text \<open>
  Claim C5 as stated: a present but unparseable end attribute is an error, and a missing
  link yields an empty string. The item of the example has a second \<^verbatim>\<open>time\<close> node whose
  \<^verbatim>\<open>datetime\<close> is present and empty (the parser rejects the empty string) and no link: it is
  extracted without error, with the zero \<^verbatim>\<open>End\<close>, and its \<^verbatim>\<open>Link\<close> is the base URL.
\<close>

theorem C5_counterexample:
  "isl (time_Parse example_weblib [])
   \<and> Eq_Attr (date_times example_item_bare) 1 = ([], True)
   \<and> Attr (linkView_href example_item_bare) = ([], False)
   \<and> extractEvents example_weblib \<lparr>listItems = [example_item_bare], link_next = None\<rparr> ''https://www.brest.fr''
       = Inr [\<lparr>Title = ''Fest-noz'', Desc = [], Category = [], Link = ''https://www.brest.fr'',
               Start = midnight 739006 UTC, End = zeroTime\<rparr>]"
  by (simp add: extract_defs example_web_defs)

text \<open>
  Claim C5, amended. Let the date parser reject the empty string and \<^verbatim>\<open>TrimSpace\<close> keep it.
  If any item of a page has a missing start attribute, an unparseable start value, or an
  end value that is not empty and unparseable, \<^verbatim>\<open>extractEvents\<close> returns an error (and so no
  event of that page). If every item is accepted, it returns one event for each item. In
  the event of an accepted item a missing description or category is the empty string, a
  missing link is the base URL resolved against the empty reference, and a missing or
  empty end value is the zero \<^verbatim>\<open>End\<close>.
\<close>

theorem C5_extract:
  assumes "rejected L []" and "TrimSpace L [] = []"
  shows "((\<exists>item \<in> set (listItems doc).
             \<not> snd (Eq_Attr (date_times item) 0) \<or> rejected L (start_attr item)
             \<or> (end_attr item \<noteq> [] \<and> rejected L (end_attr item)))
          \<longrightarrow> isl (extractEvents L doc baseUrl))
       \<and> ((\<forall>item \<in> set (listItems doc). item_accepted L item)
          \<longrightarrow> (\<exists>evs. extractEvents L doc baseUrl = Inr evs \<and> length evs = length (listItems doc)))
       \<and> (item_accepted L item
          \<longrightarrow> (\<exists>ev. extractEvents_item L baseUrl item = Inr ev
                \<and> (chapeau_div item = None \<longrightarrow> Desc ev = [])
                \<and> (category_p item = None \<longrightarrow> Category ev = [])
                \<and> (linkView_href item = None \<longrightarrow>
                     (\<exists>u. url_Parse L [] = Inr u \<and> Link ev = URL_String L (ResolveReference L baseUrl u)))
                \<and> (\<not> snd (Eq_Attr (date_times item) 1) \<or> end_attr item = [] \<longrightarrow> End ev = zeroTime)))"
proof (intro conjI impI)
  assume "\<exists>item \<in> set (listItems doc).
             \<not> snd (Eq_Attr (date_times item) 0) \<or> rejected L (start_attr item)
             \<or> (end_attr item \<noteq> [] \<and> rejected L (end_attr item))"
  then obtain item where item: "item \<in> set (listItems doc)"
    and bad: "\<not> snd (Eq_Attr (date_times item) 0) \<or> rejected L (start_attr item)
             \<or> (end_attr item \<noteq> [] \<and> rejected L (end_attr item))"
    by blast
  have "dates_refused L item"
  proof (cases "snd (Eq_Attr (date_times item) 0)")
    case True
    with bad show ?thesis by (simp add: dates_refused_def)
  next
    case False
    then have "start_attr item = []" by (simp add: start_attr_def missing_attr)
    with assms(1) show ?thesis by (simp add: dates_refused_def)
  qed
  with item have "\<exists>item \<in> set (listItems doc). dates_refused L item" by blast
  then show "isl (extractEvents L doc baseUrl)"
    unfolding extractEvents_def by (rule loop_error)
next
  assume "\<forall>item \<in> set (listItems doc). item_accepted L item"
  from loop_accepted [OF this, of baseUrl "[]"]
  show "\<exists>evs. extractEvents L doc baseUrl = Inr evs \<and> length evs = length (listItems doc)"
    by (simp add: extractEvents_def)
next
  assume "item_accepted L item"
  from item_accepted_event [OF this, of baseUrl] obtain ev where
    ev: "extractEvents_item L baseUrl item = Inr ev"
    and desc: "Desc ev = TrimSpace L (Text (chapeau_div item))"
    and cat: "Category ev = TrimSpace L (Text (category_p item))"
    and link: "\<exists>u. url_Parse L (link_attr item) = Inr u \<and> Link ev = URL_String L (ResolveReference L baseUrl u)"
    and end_date: "if end_attr item = [] then End ev = zeroTime else time_Parse L (end_attr item) = Inr (End ev)"
    by blast
  have "chapeau_div item = None \<longrightarrow> Desc ev = []"
    using desc assms(2) by (simp add: Text_def)
  moreover have "category_p item = None \<longrightarrow> Category ev = []"
    using cat assms(2) by (simp add: Text_def)
  moreover have "linkView_href item = None \<longrightarrow>
      (\<exists>u. url_Parse L [] = Inr u \<and> Link ev = URL_String L (ResolveReference L baseUrl u))"
    using link by (auto simp: link_attr_def Attr_def)
  moreover have "\<not> snd (Eq_Attr (date_times item) 1) \<or> end_attr item = [] \<longrightarrow> End ev = zeroTime"
    using end_date missing_attr [of "date_times item" 1] by (auto simp: end_attr_def)
  ultimately show "\<exists>ev. extractEvents_item L baseUrl item = Inr ev
                \<and> (chapeau_div item = None \<longrightarrow> Desc ev = [])
                \<and> (category_p item = None \<longrightarrow> Category ev = [])
                \<and> (linkView_href item = None \<longrightarrow>
                     (\<exists>u. url_Parse L [] = Inr u \<and> Link ev = URL_String L (ResolveReference L baseUrl u)))
                \<and> (\<not> snd (Eq_Attr (date_times item) 1) \<or> end_attr item = [] \<longrightarrow> End ev = zeroTime)"
    using ev by - (rule exI [where x = ev], simp)
qed

theorem C5_extract_witness:
  "rejected example_weblib [] \<and> TrimSpace example_weblib [] = []
   \<and> \<not> snd (Eq_Attr (date_times example_item_undated) 0)
   \<and> isl (extractEvents example_weblib
         \<lparr>listItems = [example_item_full, example_item_undated], link_next = None\<rparr> ''https://www.brest.fr'')
   \<and> item_accepted example_weblib example_item_bare \<and> item_accepted example_weblib example_item_full
   \<and> (\<exists>evs. extractEvents example_weblib example_page ''https://www.brest.fr'' = Inr evs \<and> length evs = 2)
   \<and> chapeau_div example_item_bare = None \<and> category_p example_item_bare = None
   \<and> linkView_href example_item_bare = None \<and> end_attr example_item_bare = []
   \<and> (\<exists>ev. extractEvents_item example_weblib ''https://www.brest.fr'' example_item_bare = Inr ev
         \<and> Desc ev = [] \<and> Category ev = [] \<and> Link ev = ''https://www.brest.fr'' \<and> End ev = zeroTime)"
proof -
  let ?L = example_weblib and ?base = "''https://www.brest.fr''"
  let ?bad = "\<lparr>listItems = [example_item_full, example_item_undated], link_next = None\<rparr>"
  have lib: "rejected ?L []" "TrimSpace ?L [] = []"
    by (simp_all add: rejected_def example_web_defs)
  have undated: "\<not> snd (Eq_Attr (date_times example_item_undated) 0)"
    by (simp add: Eq_Attr_def example_web_defs)
  have accepted: "item_accepted ?L example_item_bare" "item_accepted ?L example_item_full"
    by (simp_all add: item_accepted_def dates_refused_def rejected_def start_attr_def end_attr_def
        link_attr_def Eq_Attr_def Attr_def example_web_defs)
  have bare: "chapeau_div example_item_bare = None" "category_p example_item_bare = None"
    "linkView_href example_item_bare = None" "end_attr example_item_bare = []"
    by (simp_all add: end_attr_def Eq_Attr_def Attr_def example_web_defs)
  note items = mp [OF conjunct1 [OF C5_extract [OF lib]]]
  note page = mp [OF conjunct1 [OF conjunct2 [OF C5_extract [OF lib]]]]
  note fields = mp [OF conjunct2 [OF conjunct2 [OF C5_extract [OF lib]]]]
  have refused: "isl (extractEvents ?L ?bad ?base)"
  proof (rule items)
    from undated
    show "\<exists>item \<in> set (listItems ?bad).
             \<not> snd (Eq_Attr (date_times item) 0) \<or> rejected ?L (start_attr item)
             \<or> (end_attr item \<noteq> [] \<and> rejected ?L (end_attr item))"
      by simp
  qed
  have two: "length (listItems example_page) = 2"
    by (simp add: example_page_def)
  have "\<exists>evs. extractEvents ?L example_page ?base = Inr evs \<and> length evs = length (listItems example_page)"
  proof (rule page)
    from accepted show "\<forall>item \<in> set (listItems example_page). item_accepted ?L item"
      by (simp add: example_page_def)
  qed
  then have both: "\<exists>evs. extractEvents ?L example_page ?base = Inr evs \<and> length evs = 2"
    unfolding two .
  have empty_ref: "url_Parse ?L [] = Inr u \<longleftrightarrow> u = []"
    and resolved: "URL_String ?L (ResolveReference ?L ?base []) = ?base" for u
    by (auto simp: example_weblib_def)
  from fields [OF accepted(1), of ?base]
  have degraded: "\<exists>ev. extractEvents_item ?L ?base example_item_bare = Inr ev
         \<and> Desc ev = [] \<and> Category ev = [] \<and> Link ev = ?base \<and> End ev = zeroTime"
    by (simp add: bare empty_ref resolved)
  from lib undated refused accepted both bare degraded show ?thesis
    by (intro conjI)
qed

subsection \<open>The crawler\<close>

lemma crawl_loop_next:
  assumes "url_Parse L path = Inr u"
    and "getPage E L (ResolveReference L baseUrl u) baseUrl dumpDir pages = Inr p"
    and "Next p \<noteq> []"
  shows "crawl_loop E L baseUrl dumpDir path events pages =
         crawl_loop E L baseUrl dumpDir (Next p) (events @ Events p) (pages + 1)"
  by (subst crawl_loop.simps) (simp add: assms)

lemma crawl_loop_at:
  "crawl_at E L baseUrl dumpDir n (path0, events0, pages0) = Some (path, events, pages) \<Longrightarrow>
   crawl_loop E L baseUrl dumpDir path0 events0 pages0 = crawl_loop E L baseUrl dumpDir path events pages"
proof (induction n arbitrary: path0 events0 pages0)
  case 0
  then show ?case by simp
next
  case (Suc n)
  from Suc.prems obtain u p where
    step: "url_Parse L path0 = Inr u"
      "getPage E L (ResolveReference L baseUrl u) baseUrl dumpDir pages0 = Inr p"
      "Next p \<noteq> []"
    and rest: "crawl_at E L baseUrl dumpDir n (Next p, events0 @ Events p, pages0 + 1) = Some (path, events, pages)"
    by (auto split: sum.splits if_splits)
  from crawl_loop_next [OF step] Suc.IH [OF rest] show ?case by simp
qed

lemma getPage_status:
  assumes "Get E pageNum (URL_String L url) = Inr rsp" and "StatusCode rsp \<noteq> 200"
  shows "getPage E L url base dumpDir pageNum =
         Inl (if StatusCode rsp = 500 then ServerError else GetStatus (StatusCode rsp))"
  using assms by (simp add: getPage_def)

lemma crawl_loop_500:
  assumes "url_Parse L path = Inr u"
    and "Get E pages (URL_String L (ResolveReference L baseUrl u)) = Inr rsp"
    and "StatusCode rsp = 500"
  shows "crawl_loop E L baseUrl dumpDir path events pages = Some (Inr events)"
  using assms by (subst crawl_loop.simps) (simp add: getPage_status)

lemma crawl_loop_status:
  assumes "url_Parse L path = Inr u"
    and "Get E pages (URL_String L (ResolveReference L baseUrl u)) = Inr rsp"
    and "StatusCode rsp \<noteq> 200" and "StatusCode rsp \<noteq> 500"
  shows "crawl_loop E L baseUrl dumpDir path events pages = Some (Inl (GetStatus (StatusCode rsp)))"
  using assms by (subst crawl_loop.simps) (simp add: getPage_status)

lemma crawlFn_after_loop:
  assumes "crawlDumpDir a = Some dumpDir" and "MkdirAll E dumpDir = None"
    and "url_Parse L ''https://www.brest.fr'' = Inr baseUrl"
    and "crawl_loop E L baseUrl dumpDir ''/actus-agenda/agenda-132.html'' [] 0 = Some r"
  shows "crawlFn E L a =
         Some (case r of Inl err \<Rightarrow> \<lparr>returned = Some err, outfile = None\<rparr>
                       | Inr events \<Rightarrow> crawlFn_output E (crawlPathArg a) events)"
  using assms by (simp add: crawlFn_def split: sum.splits)

lemma crawlFn_output_empty:
  "crawlFn_output E outPath [] = \<lparr>returned = Some NoEventFound, outfile = None\<rparr>"
  by (simp add: crawlFn_output_def)

lemma crawlFn_output_events:
  assumes "events \<noteq> []"
  shows "returned (crawlFn_output E outPath events) \<noteq> Some NoEventFound"
    and "Create E outPath = None \<Longrightarrow>
         crawlFn_output E outPath events =
           \<lparr>returned = map_option External (fst (Encode E events)), outfile = Some (snd (Encode E events))\<rparr>"
    and "Create E outPath \<noteq> None \<Longrightarrow> outfile (crawlFn_output E outPath events) = None"
  using assms by (auto simp: crawlFn_output_def split: option.splits prod.splits)

text \<open>The examples, evaluated.\<close>

lemma example_extract:
  "extractEvents example_weblib example_page ''https://www.brest.fr'' = Inr example_events"
  by (simp add: extract_defs example_web_defs example_events_def)

lemma example_getPage:
  "getPage (example_env 200 second) example_weblib ''https://www.brest.fr/actus-agenda/agenda-132.html''
     ''https://www.brest.fr'' ''dump'' 0 = Inr \<lparr>Events = example_events, Next = ''/page2.html''\<rparr>"
proof -
  have "link_next example_page = Some ''/page2.html''"
    by (simp add: example_page_def)
  then show ?thesis
    by (simp add: getPage_def example_env_def example_weblib_def example_extract [unfolded example_weblib_def] Attr_def)
qed

lemma example_at:
  "crawl_at (example_env 200 second) example_weblib ''https://www.brest.fr'' ''dump'' 1
     (''/actus-agenda/agenda-132.html'', [], 0) = Some (''/page2.html'', example_events, 1)"
  using example_getPage [of second] by (simp add: example_weblib_def)

lemma example_at_start:
  "crawl_at E L baseUrl dumpDir 0 (''/actus-agenda/agenda-132.html'', [], 0)
     = Some (''/actus-agenda/agenda-132.html'', [], 0)"
  by simp

lemma example_flags:
  "crawlDumpDir example_args = Some ''dump''"
  "url_Parse example_weblib ''https://www.brest.fr'' = Inr ''https://www.brest.fr''"
  "url_Parse example_weblib path = Inr path"
  by (simp_all add: example_args_def example_weblib_def)

lemma example_os:
  "MkdirAll (example_env first second) ''dump'' = None"
  "Create (example_env first second) (crawlPathArg example_args) = None"
  "Encode (example_env first second) example_events = (None, ''Fest-noz; Regate; '')"
  by (simp_all add: example_env_def example_Encode_def example_events_def)

lemma example_requests:
  "Get (example_env first second) 0
     (URL_String example_weblib (ResolveReference example_weblib ''https://www.brest.fr'' ''/actus-agenda/agenda-132.html''))
     = Inr \<lparr>StatusCode = first, Body = Inr ''page 1''\<rparr>"
  "Get (example_env first second) 1
     (URL_String example_weblib (ResolveReference example_weblib ''https://www.brest.fr'' ''/page2.html''))
     = Inr \<lparr>StatusCode = second, Body = Inr ''page 2''\<rparr>"
  by (simp_all add: example_env_def example_weblib_def)

lemma example_events_not_empty: "example_events \<noteq> []"
  by (simp add: example_events_def)

text \<open>
  Claim C3 as stated: a status 500 on any page ends the crawl with the events accumulated
  so far and no error. When the first request is answered with 500, nothing has been
  accumulated, and \<^verbatim>\<open>crawlFn\<close> returns the error \<^verbatim>\<open>no event found\<close> and writes no file.
\<close>

theorem C3_first_page_500_counterexample:
  "Get (example_env 500 500) 0 ''https://www.brest.fr/actus-agenda/agenda-132.html''
     = Inr \<lparr>StatusCode = 500, Body = Inr ''page 1''\<rparr>
   \<and> crawlFn (example_env 500 500) example_weblib example_args
     = Some \<lparr>returned = Some NoEventFound, outfile = None\<rparr>"
proof -
  let ?E = "example_env 500 500" and ?L = example_weblib
  have get: "Get ?E 0 ''https://www.brest.fr/actus-agenda/agenda-132.html''
     = Inr \<lparr>StatusCode = 500, Body = Inr ''page 1''\<rparr>"
    by (simp add: example_env_def)
  have loop: "crawl_loop ?E ?L ''https://www.brest.fr'' ''dump'' ''/actus-agenda/agenda-132.html'' [] 0
     = Some (Inr [])"
    by (rule crawl_loop_500 [where u = "''/actus-agenda/agenda-132.html''"
          and rsp = "\<lparr>StatusCode = 500, Body = Inr ''page 1''\<rparr>"])
      (simp_all add: example_weblib_def example_env_def)
  have "crawlFn ?E ?L example_args =
      Some (case Inr [] of Inl err \<Rightarrow> \<lparr>returned = Some err, outfile = None\<rparr>
                         | Inr events \<Rightarrow> crawlFn_output ?E (crawlPathArg example_args) events)"
    by (rule crawlFn_after_loop [OF _ _ _ loop])
      (simp_all add: example_args_def example_env_def example_weblib_def)
  then have "crawlFn ?E ?L example_args = Some \<lparr>returned = Some NoEventFound, outfile = None\<rparr>"
    by (simp add: crawlFn_output_empty)
  with get show ?thesis by (rule conjI)
qed

text \<open>
  Claim C3, amended. Let the loop arrive at a request that is answered with a status
  \<^verbatim>\<open>c\<close>, with \<^verbatim>\<open>events\<close> accumulated from the pages before. If \<^verbatim>\<open>c\<close> is 500, the loop ends
  with \<^verbatim>\<open>events\<close> and without an error of its own: \<^verbatim>\<open>crawlFn\<close> returns \<^verbatim>\<open>no event found\<close> and
  writes no file when \<^verbatim>\<open>events\<close> is empty, and writes the encoded events and returns \<^verbatim>\<open>nil\<close>
  when it is not (the file being created and encoded without error). If \<^verbatim>\<open>c\<close> is neither
  200 nor 500, \<^verbatim>\<open>crawlFn\<close> returns the error \<^verbatim>\<open>GET got c\<close> and writes no file.
\<close>

theorem C3_status:
  assumes "crawlDumpDir a = Some dumpDir" and "MkdirAll E dumpDir = None"
    and "url_Parse L ''https://www.brest.fr'' = Inr baseUrl"
    and "crawl_at E L baseUrl dumpDir n (''/actus-agenda/agenda-132.html'', [], 0) = Some (path, events, pages)"
    and "url_Parse L path = Inr u"
    and "Get E pages (URL_String L (ResolveReference L baseUrl u)) = Inr rsp"
  shows "(StatusCode rsp = 500 \<longrightarrow>
            crawl_loop E L baseUrl dumpDir ''/actus-agenda/agenda-132.html'' [] 0 = Some (Inr events)
          \<and> (events = [] \<longrightarrow> crawlFn E L a = Some \<lparr>returned = Some NoEventFound, outfile = None\<rparr>)
          \<and> (events \<noteq> [] \<longrightarrow> Create E (crawlPathArg a) = None \<longrightarrow> fst (Encode E events) = None \<longrightarrow>
               crawlFn E L a = Some \<lparr>returned = None, outfile = Some (snd (Encode E events))\<rparr>))
       \<and> (StatusCode rsp \<noteq> 200 \<and> StatusCode rsp \<noteq> 500 \<longrightarrow>
            crawlFn E L a = Some \<lparr>returned = Some (GetStatus (StatusCode rsp)), outfile = None\<rparr>)"
proof -
  have same: "crawl_loop E L baseUrl dumpDir ''/actus-agenda/agenda-132.html'' [] 0 =
        crawl_loop E L baseUrl dumpDir path events pages"
    by (rule crawl_loop_at [OF assms(4)])
  note after_loop = crawlFn_after_loop [OF assms(1-3)]
  have server_error: ?thesis if "StatusCode rsp = 500"
  proof -
    from crawl_loop_500 [OF assms(5,6) that] same
    have loop: "crawl_loop E L baseUrl dumpDir ''/actus-agenda/agenda-132.html'' [] 0 = Some (Inr events)"
      by simp
    from after_loop [OF loop]
    have fn: "crawlFn E L a = Some (crawlFn_output E (crawlPathArg a) events)"
      by simp
    have "events = [] \<longrightarrow> crawlFn E L a = Some \<lparr>returned = Some NoEventFound, outfile = None\<rparr>"
      using fn by (simp add: crawlFn_output_empty)
    moreover have "events \<noteq> [] \<longrightarrow> Create E (crawlPathArg a) = None \<longrightarrow> fst (Encode E events) = None \<longrightarrow>
               crawlFn E L a = Some \<lparr>returned = None, outfile = Some (snd (Encode E events))\<rparr>"
      using fn by (simp add: crawlFn_output_events(2))
    ultimately show ?thesis using loop that by simp
  qed
  have other: ?thesis if "StatusCode rsp \<noteq> 200" "StatusCode rsp \<noteq> 500"
  proof -
    from crawl_loop_status [OF assms(5,6) that] same
    have "crawl_loop E L baseUrl dumpDir ''/actus-agenda/agenda-132.html'' [] 0
        = Some (Inl (GetStatus (StatusCode rsp)))"
      by simp
    from after_loop [OF this] that show ?thesis by simp
  qed
  from server_error other show ?thesis by blast
qed

theorem C3_status_witness:
  "crawl_at (example_env 200 500) example_weblib ''https://www.brest.fr'' ''dump'' 1
     (''/actus-agenda/agenda-132.html'', [], 0) = Some (''/page2.html'', example_events, 1)
   \<and> crawl_loop (example_env 200 500) example_weblib ''https://www.brest.fr'' ''dump''
       ''/actus-agenda/agenda-132.html'' [] 0 = Some (Inr example_events)
   \<and> crawlFn (example_env 200 500) example_weblib example_args
       = Some \<lparr>returned = None, outfile = Some ''Fest-noz; Regate; ''\<rparr>
   \<and> crawlFn (example_env 500 500) example_weblib example_args
       = Some \<lparr>returned = Some NoEventFound, outfile = None\<rparr>
   \<and> crawlFn (example_env 200 404) example_weblib example_args
       = Some \<lparr>returned = Some (GetStatus 404), outfile = None\<rparr>"
proof -
  let ?L = example_weblib and ?base = "''https://www.brest.fr''"
  let ?start = "''/actus-agenda/agenda-132.html''"
  note os_A = example_os [where first = 200 and second = 500]
  note requests_A = example_requests [where first = 200 and second = 500]
  note os_B = example_os [where first = 500 and second = 500]
  note requests_B = example_requests [where first = 500 and second = 500]
  note os_C = example_os [where first = 200 and second = 404]
  note requests_C = example_requests [where first = 200 and second = 404]
  have reach: "crawl_at (example_env 200 second) ?L ?base ''dump'' 1 (?start, [], 0)
      = Some (''/page2.html'', example_events, 1)"
    for second
    by (rule example_at)
  note server_error = C3_status [OF example_flags(1) os_A(1) example_flags(2) reach example_flags(3) requests_A(2)]
  note nothing_yet = C3_status [OF example_flags(1) os_B(1) example_flags(2) example_at_start example_flags(3) requests_B(1)]
  note not_found = C3_status [OF example_flags(1) os_C(1) example_flags(2) reach example_flags(3) requests_C(2)]
  have loop: "crawl_loop (example_env 200 500) ?L ?base ''dump'' ?start [] 0 = Some (Inr example_events)"
    using server_error by simp
  have written: "crawlFn (example_env 200 500) ?L example_args
       = Some \<lparr>returned = None, outfile = Some ''Fest-noz; Regate; ''\<rparr>"
    using server_error example_events_not_empty by (simp add: os_A)
  have none: "crawlFn (example_env 500 500) ?L example_args
       = Some \<lparr>returned = Some NoEventFound, outfile = None\<rparr>"
    using nothing_yet by simp
  have gone: "crawlFn (example_env 200 404) ?L example_args
       = Some \<lparr>returned = Some (GetStatus 404), outfile = None\<rparr>"
    using not_found by simp
  from reach loop written none gone show ?thesis by (intro conjI)
qed

text \<open>
  Claim C7. Let the loop end with \<^verbatim>\<open>events\<close>. If there are none, \<^verbatim>\<open>crawlFn\<close> returns the
  error \<^verbatim>\<open>no event found\<close> and creates no output file. Otherwise it goes on to create the
  file and to encode the events into it: its error is never \<^verbatim>\<open>no event found\<close>; once the
  file is created, the file holds what the encoder wrote and the error is the encoder's;
  if the file cannot be created there is none.
\<close>

theorem C7_no_event_found:
  assumes "crawlDumpDir a = Some dumpDir" and "MkdirAll E dumpDir = None"
    and "url_Parse L ''https://www.brest.fr'' = Inr baseUrl"
    and "crawl_loop E L baseUrl dumpDir ''/actus-agenda/agenda-132.html'' [] 0 = Some (Inr events)"
  shows "(events = [] \<longrightarrow> crawlFn E L a = Some \<lparr>returned = Some NoEventFound, outfile = None\<rparr>)
       \<and> (events \<noteq> [] \<longrightarrow>
            (\<exists>w. crawlFn E L a = Some w \<and> returned w \<noteq> Some NoEventFound
               \<and> (Create E (crawlPathArg a) = None \<longrightarrow>
                    outfile w = Some (snd (Encode E events))
                    \<and> returned w = map_option External (fst (Encode E events)))
               \<and> (Create E (crawlPathArg a) \<noteq> None \<longrightarrow> outfile w = None)))"
proof -
  from crawlFn_after_loop [OF assms]
  have fn: "crawlFn E L a = Some (crawlFn_output E (crawlPathArg a) events)"
    by simp
  have "events = [] \<longrightarrow> crawlFn E L a = Some \<lparr>returned = Some NoEventFound, outfile = None\<rparr>"
    using fn by (simp add: crawlFn_output_empty)
  moreover have "\<exists>w. crawlFn E L a = Some w \<and> returned w \<noteq> Some NoEventFound
               \<and> (Create E (crawlPathArg a) = None \<longrightarrow>
                    outfile w = Some (snd (Encode E events))
                    \<and> returned w = map_option External (fst (Encode E events)))
               \<and> (Create E (crawlPathArg a) \<noteq> None \<longrightarrow> outfile w = None)"
    if "events \<noteq> []"
    using fn crawlFn_output_events [OF that, of E "crawlPathArg a"]
    by - (rule exI [where x = "crawlFn_output E (crawlPathArg a) events"], simp)
  ultimately show ?thesis by blast
qed

theorem C7_no_event_found_witness:
  "crawl_loop (example_env 500 500) example_weblib ''https://www.brest.fr'' ''dump''
       ''/actus-agenda/agenda-132.html'' [] 0 = Some (Inr [])
   \<and> crawlFn (example_env 500 500) example_weblib example_args
       = Some \<lparr>returned = Some NoEventFound, outfile = None\<rparr>
   \<and> crawl_loop (example_env 200 500) example_weblib ''https://www.brest.fr'' ''dump''
       ''/actus-agenda/agenda-132.html'' [] 0 = Some (Inr example_events)
   \<and> example_events \<noteq> []
   \<and> (\<exists>w. crawlFn (example_env 200 500) example_weblib example_args = Some w
         \<and> returned w = None \<and> outfile w = Some ''Fest-noz; Regate; '')"
proof -
  let ?L = example_weblib and ?base = "''https://www.brest.fr''"
  let ?start = "''/actus-agenda/agenda-132.html''"
  note os_A = example_os [where first = 200 and second = 500]
  note requests_A = example_requests [where first = 200 and second = 500]
  note os_B = example_os [where first = 500 and second = 500]
  note requests_B = example_requests [where first = 500 and second = 500]
  have down: "crawl_loop (example_env 500 500) ?L ?base ''dump'' ?start [] 0 = Some (Inr [])"
    by (rule crawl_loop_500 [OF example_flags(3) requests_B(1)]) simp
  have "crawl_loop (example_env 200 500) ?L ?base ''dump'' ''/page2.html'' example_events 1
      = Some (Inr example_events)"
    by (rule crawl_loop_500 [OF example_flags(3) requests_A(2)]) simp
  with crawl_loop_at [OF example_at [where second = 500]]
  have up: "crawl_loop (example_env 200 500) ?L ?base ''dump'' ?start [] 0 = Some (Inr example_events)"
    by simp
  have none: "crawlFn (example_env 500 500) ?L example_args
       = Some \<lparr>returned = Some NoEventFound, outfile = None\<rparr>"
    using C7_no_event_found [OF example_flags(1) os_B(1) example_flags(2) down] by simp
  have "\<exists>w. crawlFn (example_env 200 500) ?L example_args = Some w
         \<and> returned w = None \<and> outfile w = Some ''Fest-noz; Regate; ''"
    using C7_no_event_found [OF example_flags(1) os_A(1) example_flags(2) up] example_events_not_empty
    by (auto simp: os_A)
  with down none up example_events_not_empty show ?thesis by (intro conjI)
qed

end
